theory Spec2Isabelle
  imports Complex_Main "HOL-Library.Sublist"
begin

section \<open>JavaScript values of a parsed response\<close>

text \<open>
  The dashboard script \<^verbatim>\<open>static/script.js\<close> renders the JSON body of the
  \<^verbatim>\<open>/check\<close> response. A field of that body is modelled as a JavaScript value:
  \<open>JUndefined\<close> is what reading an absent property yields, the other constructors are
  the values \<^verbatim>\<open>JSON.parse\<close> builds. Numbers are exact reals (the finite doubles are
  reals; \<^verbatim>\<open>NaN\<close> never comes out of \<^verbatim>\<open>JSON.parse\<close>). An object lists its own
  properties, each name once.
\<close>

datatype json =
    JUndefined
  | JNull
  | JBool bool
  | JNum real
  | JStr string
  | JArr "json list"
  | JObj "(string \<times> json) list"

text \<open>
  A raised error: its kind and its message. The message texts are those of one JavaScript
  engine and of Leaflet; no property below depends on them.
\<close>

datatype js_error = TypeError string | Error string | SyntaxError string

text \<open>\<^verbatim>\<open>ToBoolean\<close>: the test of \<^verbatim>\<open>&&\<close>, \<^verbatim>\<open>||\<close>, \<^verbatim>\<open>?:\<close> and \<^verbatim>\<open>if\<close>.\<close>

fun truthy :: "json \<Rightarrow> bool" where
  "truthy JUndefined = False"
| "truthy JNull = False"
| "truthy (JBool b) = b"
| "truthy (JNum r) = (r \<noteq> 0)"
| "truthy (JStr s) = (s \<noteq> [])"
| "truthy (JArr xs) = True"
| "truthy (JObj kvs) = True"

text \<open>\<^verbatim>\<open>typeof v === 'number'\<close>.\<close>

fun is_number :: "json \<Rightarrow> bool" where
  "is_number (JNum r) = True"
| "is_number v = False"

text \<open>
  Reading the property \<open>k\<close> of \<open>v\<close> (\<^verbatim>\<open>v.k\<close>, \<^verbatim>\<open>v[k]\<close>), for the names the script
  reads: \<^verbatim>\<open>coords\<close>, \<^verbatim>\<open>length\<close>, \<^verbatim>\<open>city\<close>, \<^verbatim>\<open>probabilities\<close> and the metric keys,
  none of which is an array index or a name on a built-in prototype. On \<^verbatim>\<open>undefined\<close>
  and \<^verbatim>\<open>null\<close> the read raises a TypeError; on a primitive or an array every name but
  \<^verbatim>\<open>length\<close> is absent.
\<close>

fun getProp :: "json \<Rightarrow> string \<Rightarrow> js_error + json" where
  "getProp JUndefined k = Inl (TypeError ''Cannot read properties of undefined'')"
| "getProp JNull k = Inl (TypeError ''Cannot read properties of null'')"
| "getProp (JBool b) k = Inr JUndefined"
| "getProp (JNum r) k = Inr JUndefined"
| "getProp (JStr s) k = Inr (if k = ''length'' then JNum (real (length s)) else JUndefined)"
| "getProp (JArr xs) k = Inr (if k = ''length'' then JNum (real (length xs)) else JUndefined)"
| "getProp (JObj kvs) k = Inr (case map_of kvs k of None \<Rightarrow> JUndefined | Some v \<Rightarrow> v)"

text \<open>
  Converting a value to a string, as a template literal \<^verbatim>\<open>`${v}`\<close> does. The conversion
  raises a TypeError exactly for an object with an own \<^verbatim>\<open>toString\<close> property (coming
  from \<^verbatim>\<open>JSON.parse\<close> it is not callable, and \<^verbatim>\<open>valueOf\<close> gives no primitive either),
  and for an array that holds such a value, since an array joins its converted elements.
\<close>

fun toStringRaises :: "json \<Rightarrow> bool" where
  "toStringRaises (JObj kvs) = (map_of kvs ''toString'' \<noteq> None)"
| "toStringRaises (JArr xs) = (\<exists>x \<in> set xs. toStringRaises x)"
| "toStringRaises v = False"

section \<open>The metric table\<close>

record metric =
  ident :: string
  key :: string
  label :: string
  color :: string

definition METRICS :: "metric list" where
  "METRICS =
    [\<lparr>ident = ''hot'', key = ''very_hot'', label = ''Very hot'', color = ''#ff6b6b''\<rparr>,
     \<lparr>ident = ''cold'', key = ''very_cold'', label = ''Very cold'', color = ''#6b9bff''\<rparr>,
     \<lparr>ident = ''wet'', key = ''very_wet'', label = ''Very wet'', color = ''#70d6ff''\<rparr>,
     \<lparr>ident = ''windy'', key = ''very_windy'', label = ''Very windy'', color = ''#7dd3c0''\<rparr>,
     \<lparr>ident = ''uncomfortable'', key = ''uncomfortable'', label = ''Uncomfortable'',
      color = ''#ff9ff3''\<rparr>]"

section \<open>The bar chart\<close>

text \<open>
  \<^verbatim>\<open>const useDefs = (selected.length === 0) ? METRICS
                     : METRICS.filter(m => selected.includes(m.id));\<close>
\<close>

definition useDefs :: "string list \<Rightarrow> metric list" where
  "useDefs selected =
     (if length selected = 0 then METRICS
      else filter (\<lambda>m. ident m \<in> set selected) METRICS)"

text \<open>
  \<^verbatim>\<open>const prob = (data.probabilities && typeof data.probabilities[m.key] === 'number')
                  ? data.probabilities[m.key] : 0;\<close>
  The argument is the value of \<^verbatim>\<open>data.probabilities\<close>. Both branches yield a number.
\<close>

definition prob :: "json \<Rightarrow> metric \<Rightarrow> js_error + real" where
  "prob probs m =
     (if truthy probs then
        (case getProp probs (key m) of
           Inl e \<Rightarrow> Inl e
         | Inr (JNum r) \<Rightarrow> Inr r
         | Inr v \<Rightarrow> Inr 0)
      else Inr 0)"

text \<open>
  One \<^verbatim>\<open>div.bar-item\<close>: the bar with its \<^verbatim>\<open>height: ${prob}%\<close> and
  \<^verbatim>\<open>background: ${m.color}\<close>, the label span, and the line \<^verbatim>\<open>${prob}%\<close> under it.
  The markup is kept as a record of the interpolated values.
\<close>

record bar =
  bar_height :: real
  bar_background :: string
  bar_label :: string
  bar_percent :: real

definition barItem :: "json \<Rightarrow> metric \<Rightarrow> js_error + bar" where
  "barItem probs m =
     (case prob probs m of
        Inl e \<Rightarrow> Inl e
      | Inr p \<Rightarrow> Inr \<lparr>bar_height = p, bar_background = color m, bar_label = label m,
                       bar_percent = p\<rparr>)"

text \<open>
  \<^verbatim>\<open>useDefs.forEach(m => { ...; barChart.appendChild(barItem); })\<close>, appending to
  the children \<open>acc\<close> of the chart. A raise leaves the loop with the children appended
  so far.
\<close>

fun forEach_bars :: "json \<Rightarrow> metric list \<Rightarrow> bar list \<Rightarrow> js_error option \<times> bar list" where
  "forEach_bars probs [] acc = (None, acc)"
| "forEach_bars probs (m # ms) acc =
     (case barItem probs m of
        Inl e \<Rightarrow> (Some e, acc)
      | Inr b \<Rightarrow> forEach_bars probs ms (acc @ [b]))"

text \<open>\<^verbatim>\<open>barChart.innerHTML = ''\<close> and the loop: the raised error, if any, and the
  children of the chart afterwards.\<close>

definition renderBars :: "json \<Rightarrow> string list \<Rightarrow> js_error option \<times> bar list" where
  "renderBars probs selected = forEach_bars probs (useDefs selected) []"

section \<open>Number formatting\<close>

text \<open>The decimal digits of a natural number, most significant first.\<close>

definition digit_char :: "nat \<Rightarrow> char" where
  "digit_char d = ''0123456789'' ! d"

fun digits :: "nat \<Rightarrow> string" where
  "digits n = (if n < 10 then [digit_char n] else digits (n div 10) @ [digit_char (n mod 10)])"

declare digits.simps [simp del]

text \<open>
  \<^verbatim>\<open>x.toFixed(f)\<close> as ECMAScript defines it on the exact value of a finite \<open>x\<close> with
  \<open>\<bar>x\<bar> < 10\<^sup>2\<^sup>1\<close>: the sign, then the integer \<open>n\<close> nearest to \<open>\<bar>x\<bar> * 10\<^sup>f\<close> (the
  larger one on a tie), written in decimal, padded with zeros to \<open>f + 1\<close> digits, with the
  point before the last \<open>f\<close> digits. (From \<open>10\<^sup>2\<^sup>1\<close> on the built-in switches to exponent
  notation, which is not modelled.)
\<close>

definition toFixed :: "real \<Rightarrow> nat \<Rightarrow> string" where
  "toFixed x f =
     (let s = (if x < 0 then ''-'' else []);
          n = nat \<lfloor>\<bar>x\<bar> * 10 ^ f + 1 / 2\<rfloor>;
          m = digits n;
          m = (if f \<noteq> 0 then
                 (let m = (if length m \<le> f then replicate (f + 1 - length m) CHR ''0'' @ m
                           else m);
                      k = length m
                  in take (k - f) m @ ''.'' @ drop (k - f) m)
               else m)
      in s @ m)"

text \<open>\<^verbatim>\<open>parts.join(sep)\<close>.\<close>

fun join :: "string \<Rightarrow> string list \<Rightarrow> string" where
  "join sep [] = []"
| "join sep [s] = s"
| "join sep (s # t # ss) = s @ sep @ join sep (t # ss)"

section \<open>The trend line chart\<close>

text \<open>
  An element of the \<^verbatim>\<open>time_series\<close> array that is not \<^verbatim>\<open>null\<close>, read the way the
  chart reads it: the text \<^verbatim>\<open>${p.date}\<close> and the two series values \<^verbatim>\<open>p.hot\<close> and
  \<^verbatim>\<open>p.wet\<close>, each a number or \<open>None\<close> when it is absent or another falsy value.
  (A truthy value that is not a number would go through JavaScript's number coercion in
  \<^verbatim>\<open>Math.max\<close> and in the division; such elements, and elements whose date has no text
  because its conversion raises, are outside this model.)
\<close>

record point =
  date :: string
  hot :: "real option"
  wet :: "real option"

text \<open>
  The value of the \<^verbatim>\<open>time_series\<close> field: any JavaScript value as in \<open>json\<close>, with
  the elements of an array read as points (\<open>None\<close> for a \<^verbatim>\<open>null\<close> element).
\<close>

datatype series =
    TsUndefined
  | TsNull
  | TsBool bool
  | TsNum real
  | TsStr string
  | TsObj "(string \<times> json) list"
  | TsArr "point option list"

text \<open>
  The elements \<^verbatim>\<open>drawLineChart\<close> writes into the \<^verbatim>\<open>svg\<close>, each with the
  attributes the script interpolates: \<^verbatim>\<open><text x y ...>content</text>\<close> with its other
  attributes, \<^verbatim>\<open><line x1 y1 x2 y2 stroke>\<close>, \<^verbatim>\<open><path d stroke>\<close> (stroke-width 3, no
  fill), \<^verbatim>\<open><circle cx cy fill>\<close> (radius 3) and \<^verbatim>\<open><rect x y fill>\<close> (10 by 10).
\<close>

datatype svg =
    SvgText real real "(string \<times> string) list" string
  | SvgLine real real real real string
  | SvgPath string string
  | SvgCircle real real string
  | SvgRect real real string

definition viewW :: real where "viewW = 500"

definition viewH :: real where "viewH = 200"

definition leftPad :: real where "leftPad = 40"

definition rightPad :: real where "rightPad = 20"

definition topPad :: real where "topPad = 20"

definition bottomPad :: real where "bottomPad = 30"

definition width :: real where
  "width = viewW - leftPad - rightPad"

definition height :: real where
  "height = viewH - topPad - bottomPad"

text \<open>\<^verbatim>\<open>ts.slice(-k)\<close>: the last \<open>k\<close> elements, or all of them when there are fewer.\<close>

definition slice_last :: "nat \<Rightarrow> 'a list \<Rightarrow> 'a list" where
  "slice_last k xs = drop (length xs - k) xs"

text \<open>\<^verbatim>\<open>const xFor = (i) => leftPad + (n === 1 ? width / 2 : (i * (width / (n - 1))));\<close>\<close>

definition xFor :: "nat \<Rightarrow> nat \<Rightarrow> real" where
  "xFor n i = leftPad + (if n = 1 then width / 2 else real i * (width / (real n - 1)))"

text \<open>\<^verbatim>\<open>v || 0\<close> on a series value: absent, and the falsy number \<open>0\<close>, give \<open>0\<close>.\<close>

definition orZero :: "real option \<Rightarrow> real" where
  "orZero v = (case v of None \<Rightarrow> 0 | Some r \<Rightarrow> if r \<noteq> 0 then r else 0)"

text \<open>\<^verbatim>\<open>Math.max(...xs, z)\<close>.\<close>

definition Math_max :: "real list \<Rightarrow> real \<Rightarrow> real" where
  "Math_max xs z = fold max xs z"

definition maxHot :: "point list \<Rightarrow> real" where
  "maxHot last_pts = Math_max (map (\<lambda>p. orZero (hot p)) last_pts) 1"

definition maxWet :: "point list \<Rightarrow> real" where
  "maxWet last_pts = Math_max (map (\<lambda>p. orZero (wet p)) last_pts) 1"

text \<open>\<^verbatim>\<open>const ratio = (maxVal === 0) ? 0 : (v / maxVal);\<close>\<close>

definition ratio :: "real \<Rightarrow> real \<Rightarrow> real" where
  "ratio v maxVal = (if maxVal = 0 then 0 else v / maxVal)"

text \<open>\<^verbatim>\<open>buildPath(arr, maxVal)\<close>, with the \<open>n\<close> that \<^verbatim>\<open>xFor\<close> closes over.\<close>

definition buildPath :: "nat \<Rightarrow> real list \<Rightarrow> real \<Rightarrow> string" where
  "buildPath n arr maxVal =
     join '' ''
       (map (\<lambda>(i, v).
              let x = xFor n i;
                  y = topPad + (height - ratio v maxVal * height)
              in (if i = 0 then ''M'' else ''L'') @ '' '' @ toFixed x 2 @ '' '' @ toFixed y 2)
            (enumerate 0 arr))"

text \<open>The body of \<^verbatim>\<open>last.forEach((p, i) => ...)\<close>: two marker circles and the axis label.\<close>

definition markers :: "nat \<Rightarrow> real \<Rightarrow> real \<Rightarrow> nat \<Rightarrow> point \<Rightarrow> svg list" where
  "markers n mHot mWet i p =
     (let x = xFor n i;
          yHot = topPad + (height - (orZero (hot p) / mHot) * height);
          yWet = topPad + (height - (orZero (wet p) / mWet) * height)
      in [SvgCircle x yHot ''#ff6b6b'',
          SvgCircle x yWet ''#70d6ff'',
          SvgText x (topPad + height + 18)
            [(''font-size'', ''11''), (''text-anchor'', ''middle''), (''fill'', ''#666'')] (date p)])"

text \<open>The legend; the degree sign of \<^verbatim>\<open>Temp (..C)\<close> is written as its two UTF-8 bytes.\<close>

definition legend :: "svg list" where
  "legend =
     [SvgRect (viewW - 140) topPad ''#ff6b6b'',
      SvgText (viewW - 124) (topPad + 9) [(''font-size'', ''11''), (''fill'', ''#333'')]
        (''Temp ('' @ [CHR 0xC2, CHR 0xB0] @ ''C)''),
      SvgRect (viewW - 140) (topPad + 18) ''#70d6ff'',
      SvgText (viewW - 124) (topPad + 27) [(''font-size'', ''11''), (''fill'', ''#333'')]
        ''Rain (mm)'']"

text \<open>The placeholder \<^verbatim>\<open><text x="20" y="${viewH / 2}" fill="#999">\<close>.\<close>

definition noData :: "svg list" where
  "noData = [SvgText 20 (viewH / 2) [(''fill'', ''#999'')] ''No time-series data'']"

text \<open>
  \<^verbatim>\<open>drawLineChart(ts)\<close>: the raised error, if any, and the content of the \<^verbatim>\<open>svg\<close>
  afterwards. The \<^verbatim>\<open>svg\<close> is emptied first, so a raise leaves it empty. The test
  \<^verbatim>\<open>!ts || ts.length === 0\<close> sends every falsy value, the empty array and an object
  with \<^verbatim>\<open>length\<close> 0 to the placeholder. Of the other values only an array has both
  \<^verbatim>\<open>slice\<close> and \<^verbatim>\<open>map\<close> (a string has \<^verbatim>\<open>slice\<close> alone), and reading \<^verbatim>\<open>p.hot\<close>
  raises on a \<^verbatim>\<open>null\<close> element of the window.
\<close>

fun drawLineChart :: "series \<Rightarrow> js_error option \<times> svg list" where
  "drawLineChart TsUndefined = (None, noData)"
| "drawLineChart TsNull = (None, noData)"
| "drawLineChart (TsBool b) =
     (if \<not> b then (None, noData) else (Some (TypeError ''ts.slice is not a function''), []))"
| "drawLineChart (TsNum r) =
     (if r = 0 then (None, noData) else (Some (TypeError ''ts.slice is not a function''), []))"
| "drawLineChart (TsStr s) =
     (if s = [] then (None, noData) else (Some (TypeError ''last.map is not a function''), []))"
| "drawLineChart (TsObj kvs) =
     (if map_of kvs ''length'' = Some (JNum 0) then (None, noData)
      else (Some (TypeError ''ts.slice is not a function''), []))"
| "drawLineChart (TsArr ts) =
     (if length ts = 0 then (None, noData)
      else
        (let last_elems = slice_last 6 ts;
             n = length last_elems
         in case those last_elems of
              None \<Rightarrow> (Some (TypeError ''Cannot read properties of null (reading 'hot')''), [])
            | Some last_pts \<Rightarrow>
                (let mHot = maxHot last_pts;
                     mWet = maxWet last_pts;
                     hotPath = buildPath n (map (\<lambda>p. orZero (hot p)) last_pts) mHot;
                     wetPath = buildPath n (map (\<lambda>p. orZero (wet p)) last_pts) mWet
                 in (None,
                     [SvgLine leftPad topPad leftPad (topPad + height) ''#eee'',
                      SvgPath hotPath ''#ff6b6b'',
                      SvgPath wetPath ''#70d6ff'']
                     @ concat (map (\<lambda>(i, p). markers n mHot mWet i p) (enumerate 0 last_pts))
                     @ legend))))"

section \<open>The page\<close>

text \<open>
  A Leaflet marker: an object with its own identity (\<open>marker_id\<close>), the position it was
  created at and the content bound to its popup. The position keeps the values the
  script passes: numbers at start-up, the fields of \<^verbatim>\<open>data.coords\<close> after a query, the
  \<^verbatim>\<open>toFixed\<close> strings after a click.
\<close>

record lmarker =
  marker_id :: nat
  latlng :: "json \<times> json"
  popup :: json

text \<open>The Leaflet map: its view and the marker layers on it (the tile layer apart).\<close>

record lmap =
  center :: "json \<times> json"
  zoom :: nat
  layers :: "lmarker list"

text \<open>The interpolated values of the summary card \<^verbatim>\<open>#infoCard\<close>.\<close>

record info =
  info_hp :: json
  info_wp :: json
  info_city :: json
  info_date :: string

text \<open>
  The state the script reads and writes: the three inputs, the ids of the checked metric
  checkboxes in document order, the \<^verbatim>\<open>loading\<close> class of the body, the children of
  \<^verbatim>\<open>#barChart\<close> and \<^verbatim>\<open>#lineChart\<close>, the summary card once written, the globals
  \<^verbatim>\<open>map\<close> and \<^verbatim>\<open>marker\<close> (\<open>None\<close> for \<^verbatim>\<open>null\<close>), the next free object identity,
  and the alerts shown so far.
\<close>

record page =
  cityInput :: string
  pinInput :: string
  dateInput :: string
  checked :: "string list"
  loading :: bool
  barChart :: "bar list"
  lineChart :: "svg list"
  infoCard :: "info option"
  map_obj :: "lmap option"
  marker :: "lmarker option"
  next_id :: nat
  alerts :: "string list"

text \<open>
  Modelled from the spec: the HTML document the script runs in is not in the repository
  sources. Before any script runs its body carries no \<^verbatim>\<open>loading\<close> class (the flag is
  false before the first query), the inputs are empty, nothing is checked and the charts
  and the card are empty.
\<close>

definition document0 :: page where
  "document0 =
     \<lparr>cityInput = [], pinInput = [], dateInput = [], checked = [], loading = False,
      barChart = [], lineChart = [], infoCard = None, map_obj = None, marker = None,
      next_id = 0, alerts = []\<rparr>"

text \<open>
  Lines 1 to 4, run when the script loads: both globals are \<^verbatim>\<open>null\<close> and the date input
  gets today's date, \<^verbatim>\<open>new Date().toISOString().split('T')[0]\<close>, passed in as \<open>today\<close>.
\<close>

definition scriptLoad :: "string \<Rightarrow> page \<Rightarrow> page" where
  "scriptLoad today p = p\<lparr>map_obj := None, marker := None, dateInput := today\<rparr>"

text \<open>\<^verbatim>\<open>map.removeLayer(mk)\<close>: the layer with that identity leaves the map.\<close>

definition removeLayer :: "lmarker \<Rightarrow> lmap \<Rightarrow> lmap" where
  "removeLayer mk m = m\<lparr>layers := filter (\<lambda>l. marker_id l \<noteq> marker_id mk) (layers m)\<rparr>"

text \<open>\<^verbatim>\<open>if (marker) map.removeLayer(marker);\<close> on the map \<open>m\<close>.\<close>

definition removeOld :: "lmarker option \<Rightarrow> lmap \<Rightarrow> lmap" where
  "removeOld old m = (case old of None \<Rightarrow> m | Some mk \<Rightarrow> removeLayer mk m)"

text \<open>
  \<^verbatim>\<open>marker = L.marker(pos).addTo(map).bindPopup(content).openPopup();\<close> on the map
  \<open>m\<close> of the page, when the whole chain returns: a new marker object, added to the map
  and stored in the global.
\<close>

definition addMarker :: "json \<times> json \<Rightarrow> json \<Rightarrow> lmap \<Rightarrow> page \<Rightarrow> page" where
  "addMarker pos content m p =
     (let mk = \<lparr>marker_id = next_id p, latlng = pos, popup = content\<rparr>
      in p\<lparr>map_obj := Some (m\<lparr>layers := layers m @ [mk]\<rparr>), marker := Some mk,
            next_id := next_id p + 1\<rparr>)"

text \<open>
  Leaflet is not part of the repository. Two facts about it enter the model.

  A popup opens on string content only: \<^verbatim>\<open>openPopup\<close> writes a string into the popup
  and appends anything else as a DOM node, which raises a TypeError for every other
  truthy value a response can hold. (Falsy content is not drawn at all.)
\<close>

definition popupOpens :: "json \<Rightarrow> bool" where
  "popupOpens content = (case content of JStr s \<Rightarrow> True | v \<Rightarrow> \<not> truthy v)"

text \<open>
  The chain \<^verbatim>\<open>L.marker(pos).addTo(map).bindPopup(content).openPopup()\<close> and the
  assignment of its result to the global \<^verbatim>\<open>marker\<close>, for a position Leaflet takes.
  The global is assigned only when the chain has returned: when \<^verbatim>\<open>openPopup\<close> raises,
  the new marker is on the map already and the global keeps its old value.
\<close>

definition markerChain ::
  "json \<times> json \<Rightarrow> json \<Rightarrow> lmap \<Rightarrow> page \<Rightarrow> js_error option \<times> page" where
  "markerChain pos content m p =
     (if popupOpens content then (None, addMarker pos content m p)
      else (Some (TypeError ''parameter 1 is not of type 'Node'.''),
            (addMarker pos content m p)\<lparr>marker := marker p\<rparr>))"

text \<open>
  The other fact: whether Leaflet takes a pair of values as a position is decided by its
  own conversion (\<^verbatim>\<open>toLatLng\<close>), the same for \<^verbatim>\<open>map.setView\<close> and \<^verbatim>\<open>L.marker\<close>, and
  a call with a pair it does not take raises. Two numbers are always taken, and so are
  the decimal numerals \<^verbatim>\<open>toFixed\<close> writes. For every other pair of values that
  \<^verbatim>\<open>data.coords\<close> can hold the decision is left to Leaflet: it is the parameter
  \<open>takes\<close> of the model, and nothing is assumed about it.
\<close>

definition taken :: "(json \<Rightarrow> json \<Rightarrow> bool) \<Rightarrow> json \<Rightarrow> json \<Rightarrow> bool" where
  "taken takes lat lon =
     (case (lat, lon) of (JNum a, JNum b) \<Rightarrow> True | other \<Rightarrow> takes lat lon)"

text \<open>
  The \<^verbatim>\<open>DOMContentLoaded\<close> handler: the map is created and centred on Karachi, and the
  initial marker is added; the position is a pair of numbers and the content a string,
  so the chain returns. (It also registers the click handler, \<open>mapClick\<close> below.)
\<close>

definition domContentLoaded :: "page \<Rightarrow> page" where
  "domContentLoaded p =
     addMarker (JNum 24.86, JNum 67.00) (JStr ''Karachi'')
       \<lparr>center = (JNum 24.86, JNum 67.00), zoom = 10, layers = []\<rparr> p"

definition startup :: "string \<Rightarrow> page \<Rightarrow> page" where
  "startup today doc = domContentLoaded (scriptLoad today doc)"

text \<open>
  The click handler of the map, for \<^verbatim>\<open>e.latlng = (elat, elng)\<close>. It is registered on
  the map, so without a map there is no handler and a click changes nothing. A raise in
  the marker chain would leave the handler before the inputs are written.
\<close>

definition mapClick :: "real \<Rightarrow> real \<Rightarrow> page \<Rightarrow> page" where
  "mapClick elat elng p =
     (case map_obj p of
        None \<Rightarrow> p
      | Some m \<Rightarrow>
          (let lat = toFixed elat 5;
               lon = toFixed elng 5
           in case markerChain (JStr lat, JStr lon)
                     (JStr (''Selected Location: '' @ lat @ '', '' @ lon))
                     (removeOld (marker p) m) p of
                (Some e, p1) \<Rightarrow> p1
              | (None, p1) \<Rightarrow> p1\<lparr>pinInput := lat @ '','' @ lon, cityInput := []\<rparr>))"

section \<open>A query\<close>

text \<open>
  The body of a successful response, as the contract of \<^verbatim>\<open>POST /check\<close> gives it: an
  object whose fields may hold any value or be absent (\<open>JUndefined\<close>, \<open>TsUndefined\<close>).
  A body that parses to a number, a string, a boolean or an array reads like an object
  without these fields.
\<close>

record response =
  coords :: json
  city :: json
  probabilities :: json
  time_series :: series

text \<open>What \<^verbatim>\<open>resp.json()\<close> settles to: a raise on a body that is not JSON, the value
  \<^verbatim>\<open>null\<close>, or the data.\<close>

datatype body = ParseFailure string | NullBody | Body response

text \<open>What \<^verbatim>\<open>fetch\<close> settles to: a rejection (network failure) with its message, or a
  response with its status and body.\<close>

datatype fetch_result = Rejected string | Response nat body

text \<open>\<^verbatim>\<open>resp.ok\<close>: the status is in the range 200 to 299.\<close>

definition ok :: "nat \<Rightarrow> bool" where
  "ok status = (200 \<le> status \<and> status \<le> 299)"

text \<open>
  The locals \<^verbatim>\<open>checkWeather\<close> reads from the page before it awaits (lines 15 to 18)
  and uses when it renders: \<^verbatim>\<open>city\<close>, \<^verbatim>\<open>date\<close> and \<^verbatim>\<open>selected\<close>. (\<^verbatim>\<open>pin\<close> and
  \<^verbatim>\<open>lat_lon\<close> only go into the request body.)
\<close>

record locals =
  city_in :: string
  date_in :: string
  selected :: "string list"

definition readInputs :: "page \<Rightarrow> locals" where
  "readInputs p =
     \<lparr>city_in = (if cityInput p \<noteq> [] then cityInput p else ''Karachi''),
      date_in = dateInput p,
      selected = checked p\<rparr>"

text \<open>Line 21, \<^verbatim>\<open>document.body.classList.add('loading')\<close>: the page while the request is
  outstanding.\<close>

definition dispatch :: "page \<Rightarrow> page" where
  "dispatch p = p\<lparr>loading := True\<rparr>"

text \<open>
  \<^verbatim>\<open>const [lat, lon] = data.coords;\<close> reached behind the test
  \<^verbatim>\<open>data.coords && data.coords.length === 2\<close>: arrays and strings are iterable (a string
  yields its characters), an object built by \<^verbatim>\<open>JSON.parse\<close> is not, and a missing
  element is \<^verbatim>\<open>undefined\<close>.
\<close>

fun destructure2 :: "json \<Rightarrow> js_error + json \<times> json" where
  "destructure2 (JArr xs) =
     Inr (if 0 < length xs then xs ! 0 else JUndefined,
          if 1 < length xs then xs ! 1 else JUndefined)"
| "destructure2 (JStr s) =
     Inr (if 0 < length s then JStr [s ! 0] else JUndefined,
          if 1 < length s then JStr [s ! 1] else JUndefined)"
| "destructure2 v = Inl (TypeError ''data.coords is not iterable'')"

text \<open>\<^verbatim>\<open>data.city || city || 'Selected Location'\<close>.\<close>

definition displayName :: "json \<Rightarrow> string \<Rightarrow> json" where
  "displayName data_city city_local =
     (if truthy data_city then data_city
      else if city_local \<noteq> [] then JStr city_local
      else JStr ''Selected Location'')"

text \<open>
  Lines 34 to 49: the map view and the marker follow \<^verbatim>\<open>data.coords\<close>. The raised
  error, if any, and the page as changed up to there. \<^verbatim>\<open>map.setView\<close> is the first
  call on the pair and raises when Leaflet does not take it; the page is then as it was
  (the view Leaflet is left with in that case is read by no property). After it the old
  marker is removed and the marker chain runs.
\<close>

definition updateMap ::
  "(json \<Rightarrow> json \<Rightarrow> bool) \<Rightarrow> locals \<Rightarrow> response \<Rightarrow> page \<Rightarrow> js_error option \<times> page" where
  "updateMap takes l data p =
     (if truthy (coords data) \<and> getProp (coords data) ''length'' = Inr (JNum 2) then
        (case destructure2 (coords data) of
           Inl e \<Rightarrow> (Some e, p)
         | Inr (lat, lon) \<Rightarrow>
             (case map_obj p of
                None \<Rightarrow> (None, p)
              | Some m \<Rightarrow>
                  if \<not> taken takes lat lon then (Some (Error ''Invalid LatLng object''), p)
                  else markerChain (lat, lon) (displayName (city data) (city_in l))
                         (removeOld (marker p) (m\<lparr>center := (lat, lon), zoom := 10\<rparr>)) p))
      else (None, p))"

text \<open>
  \<^verbatim>\<open>(data.probabilities && data.probabilities.very_hot) ? data.probabilities.very_hot : 0\<close>
  and the same for \<^verbatim>\<open>very_wet\<close>: the value the summary card prints.
\<close>

definition summaryProb :: "json \<Rightarrow> string \<Rightarrow> js_error + json" where
  "summaryProb probs k =
     (if truthy probs then
        (case getProp probs k of
           Inl e \<Rightarrow> Inl e
         | Inr v \<Rightarrow> if truthy v then Inr v else Inr (JNum 0))
      else Inr (JNum 0))"

text \<open>
  Lines 69 to 79: the summary card. The template literal converts \<^verbatim>\<open>hp\<close>,
  \<^verbatim>\<open>actualCity\<close> and \<^verbatim>\<open>wp\<close> to strings, in this order of first use, and a
  conversion that raises leaves the card unwritten.
\<close>

definition summaryCard :: "locals \<Rightarrow> response \<Rightarrow> js_error + info" where
  "summaryCard l data =
     (case summaryProb (probabilities data) ''very_hot'' of
        Inl e \<Rightarrow> Inl e
      | Inr hp \<Rightarrow>
          (case summaryProb (probabilities data) ''very_wet'' of
             Inl e \<Rightarrow> Inl e
           | Inr wp \<Rightarrow>
               (let actualCity = displayName (city data) (city_in l)
                in if toStringRaises hp \<or> toStringRaises actualCity \<or> toStringRaises wp
                   then Inl (TypeError ''Cannot convert object to primitive value'')
                   else Inr \<lparr>info_hp = hp, info_wp = wp, info_city = actualCity,
                             info_date = date_in l\<rparr>)))"

text \<open>\<^verbatim>\<open>data.time_series || []\<close>.\<close>

fun orEmpty :: "series \<Rightarrow> series" where
  "orEmpty TsUndefined = TsArr []"
| "orEmpty TsNull = TsArr []"
| "orEmpty (TsBool b) = (if b then TsBool b else TsArr [])"
| "orEmpty (TsNum r) = (if r \<noteq> 0 then TsNum r else TsArr [])"
| "orEmpty (TsStr s) = (if s \<noteq> [] then TsStr s else TsArr [])"
| "orEmpty (TsObj kvs) = TsObj kvs"
| "orEmpty (TsArr ts) = TsArr ts"

text \<open>
  Lines 34 to 79, the rendering of the parsed \<open>data\<close>: the raised error, if any, and the
  page as changed up to there.
\<close>

definition render ::
  "(json \<Rightarrow> json \<Rightarrow> bool) \<Rightarrow> locals \<Rightarrow> response \<Rightarrow> page \<Rightarrow> js_error option \<times> page" where
  "render takes l data p =
     (case updateMap takes l data p of
        (Some e, p1) \<Rightarrow> (Some e, p1)
      | (None, p1) \<Rightarrow>
          (case renderBars (probabilities data) (selected l) of
             (Some e, bars) \<Rightarrow> (Some e, p1\<lparr>barChart := bars\<rparr>)
           | (None, bars) \<Rightarrow>
               (let p2 = p1\<lparr>barChart := bars\<rparr>
                in case drawLineChart (orEmpty (time_series data)) of
                     (Some e, elems) \<Rightarrow> (Some e, p2\<lparr>lineChart := elems\<rparr>)
                   | (None, elems) \<Rightarrow>
                       (let p3 = p2\<lparr>lineChart := elems\<rparr>
                        in case summaryCard l data of
                             Inl e \<Rightarrow> (Some e, p3)
                           | Inr ic \<Rightarrow> (None, p3\<lparr>infoCard := Some ic\<rparr>)))))"

text \<open>The \<^verbatim>\<open>try\<close> block, lines 24 to 79, once \<^verbatim>\<open>fetch\<close> has settled to \<open>res\<close>.\<close>

definition tryBlock ::
  "(json \<Rightarrow> json \<Rightarrow> bool) \<Rightarrow> locals \<Rightarrow> fetch_result \<Rightarrow> page \<Rightarrow> js_error option \<times> page"
  where
  "tryBlock takes l res p =
     (case res of
        Rejected msg \<Rightarrow> (Some (TypeError msg), p)
      | Response status b \<Rightarrow>
          if \<not> ok status then (Some (Error (''Server '' @ digits status)), p)
          else (case b of
                  ParseFailure msg \<Rightarrow> (Some (SyntaxError msg), p)
                | NullBody \<Rightarrow>
                    (Some (TypeError ''Cannot read properties of null (reading 'coords')''), p)
                | Body data \<Rightarrow> render takes l data p))"

text \<open>\<^verbatim>\<open>err.message\<close>.\<close>

fun message :: "js_error \<Rightarrow> string" where
  "message (TypeError msg) = msg"
| "message (Error msg) = msg"
| "message (SyntaxError msg) = msg"

text \<open>The \<^verbatim>\<open>catch\<close> block: the alert.\<close>

definition catchBlock :: "js_error \<Rightarrow> page \<Rightarrow> page" where
  "catchBlock err p =
     p\<lparr>alerts := alerts p @
          [''Oops: '' @ message err @ ''. Try a past date or change city/coords.'']\<rparr>"

text \<open>The \<^verbatim>\<open>finally\<close> block: \<^verbatim>\<open>document.body.classList.remove('loading')\<close>.\<close>

definition finallyBlock :: "page \<Rightarrow> page" where
  "finallyBlock p = p\<lparr>loading := False\<rparr>"

text \<open>
  The rest of \<^verbatim>\<open>checkWeather\<close> once \<^verbatim>\<open>fetch\<close> has settled, on the page as it is then:
  \<^verbatim>\<open>try\<close>, \<^verbatim>\<open>catch\<close> on a raise, \<^verbatim>\<open>finally\<close> in every case.
\<close>

definition settle ::
  "(json \<Rightarrow> json \<Rightarrow> bool) \<Rightarrow> locals \<Rightarrow> fetch_result \<Rightarrow> page \<Rightarrow> page" where
  "settle takes l res p =
     (case tryBlock takes l res p of
        (None, p1) \<Rightarrow> finallyBlock p1
      | (Some err, p1) \<Rightarrow> finallyBlock (catchBlock err p1))"

text \<open>A whole call of \<^verbatim>\<open>checkWeather\<close> with nothing else happening while it awaits.\<close>

definition checkWeather :: "(json \<Rightarrow> json \<Rightarrow> bool) \<Rightarrow> fetch_result \<Rightarrow> page \<Rightarrow> page" where
  "checkWeather takes res p = settle takes (readInputs p) res (dispatch p)"

text \<open>
  \<^verbatim>\<open>downloadCSV\<close> and \<^verbatim>\<open>downloadJSON\<close>, once their request has settled: the file is
  saved when the request succeeded (\<^verbatim>\<open>resp.ok\<close> and the blob was read), and an alert
  is shown otherwise. Neither changes anything else on the page.
\<close>

definition downloadCSV :: "bool \<Rightarrow> page \<Rightarrow> page" where
  "downloadCSV succeeded p =
     (if succeeded then p
      else p\<lparr>alerts := alerts p @ [''CSV download not available on this backend.'']\<rparr>)"

definition downloadJSON :: "bool \<Rightarrow> page \<Rightarrow> page" where
  "downloadJSON succeeded p =
     (if succeeded then p
      else p\<lparr>alerts := alerts p @ [''JSON download not available on this backend.'']\<rparr>)"



section \<open>Observations used in the properties\<close>

text \<open>
  The response gives the bar of metric \<open>m\<close> no number: \<^verbatim>\<open>data.probabilities\<close> is absent
  (or \<^verbatim>\<open>null\<close>),
  or it lacks the key of \<open>m\<close>, or it maps the key to a value that is not a number.
\<close>

definition lacks_number :: "json \<Rightarrow> metric \<Rightarrow> bool" where
  "lacks_number probs m =
     (probs = JUndefined \<or> probs = JNull \<or>
      (case getProp probs (key m) of Inl e \<Rightarrow> False | Inr v \<Rightarrow> \<not> is_number v))"

text \<open>The identifier is one of the metric table.\<close>

definition known :: "string \<Rightarrow> bool" where
  "known s = (s \<in> set (map ident METRICS))"

text \<open>The number \<^verbatim>\<open>prob\<close> yields, and the bar built from it.\<close>

definition probValue :: "json \<Rightarrow> metric \<Rightarrow> real" where
  "probValue probs m = (case prob probs m of Inl e \<Rightarrow> 0 | Inr p \<Rightarrow> p)"

definition barOf :: "json \<Rightarrow> metric \<Rightarrow> bar" where
  "barOf probs m =
     \<lparr>bar_height = probValue probs m, bar_background = color m, bar_label = label m,
      bar_percent = probValue probs m\<rparr>"

text \<open>
  The marker circles, the paths and the axis labels (the texts anchored in the middle)
  among the elements of the chart, in document order.
\<close>

fun circle_of :: "svg \<Rightarrow> (real \<times> real \<times> string) list" where
  "circle_of (SvgCircle cx cy fill) = [(cx, cy, fill)]"
| "circle_of e = []"

definition circles :: "svg list \<Rightarrow> (real \<times> real \<times> string) list" where
  "circles els = concat (map circle_of els)"

fun path_of :: "svg \<Rightarrow> (string \<times> string) list" where
  "path_of (SvgPath d stroke) = [(d, stroke)]"
| "path_of e = []"

definition paths :: "svg list \<Rightarrow> (string \<times> string) list" where
  "paths els = concat (map path_of els)"

fun axis_label_of :: "svg \<Rightarrow> (real \<times> string) list" where
  "axis_label_of (SvgText x y attrs content) =
     (if (''text-anchor'', ''middle'') \<in> set attrs then [(x, content)] else [])"
| "axis_label_of e = []"

definition axis_labels :: "svg list \<Rightarrow> (real \<times> string) list" where
  "axis_labels els = concat (map axis_label_of els)"

text \<open>The chart of a time series whose elements are all points (none is \<^verbatim>\<open>null\<close>).\<close>

definition drawn :: "point list \<Rightarrow> svg list" where
  "drawn ts = snd (drawLineChart (TsArr (map Some ts)))"

text \<open>The height at which a value is drawn, \<^verbatim>\<open>topPad + (height - (v / maxVal) * height)\<close>.\<close>

definition yFor :: "real \<Rightarrow> real \<Rightarrow> real" where
  "yFor v maxVal = topPad + (height - (v / maxVal) * height)"

text \<open>The pages reached before any query: start-up on the document, clicks, edits and
  downloads.\<close>

inductive before_query :: "page \<Rightarrow> bool" where
  bq_start: "before_query (startup today document0)"
| bq_click: "before_query p \<Longrightarrow> before_query (mapClick elat elng p)"
| bq_edit: "before_query p \<Longrightarrow>
         before_query (p\<lparr>cityInput := c, pinInput := pin, dateInput := d, checked := cs\<rparr>)"
| bq_csv: "before_query p \<Longrightarrow> before_query (downloadCSV succeeded p)"
| bq_json: "before_query p \<Longrightarrow> before_query (downloadJSON succeeded p)"


text \<open>\<^verbatim>\<open>data.coords\<close> passes the length test and is not iterable: an object with a
  \<^verbatim>\<open>length\<close> property equal to 2.\<close>

definition not_iterable2 :: "json \<Rightarrow> bool" where
  "not_iterable2 v = (case v of JObj kvs \<Rightarrow> map_of kvs ''length'' = Some (JNum 2) | _ \<Rightarrow> False)"

text \<open>
  The value of \<^verbatim>\<open>time_series\<close> makes the chart raise: it is truthy and neither an array
  nor an object with \<^verbatim>\<open>length\<close> 0, or it is an array with a \<^verbatim>\<open>null\<close> among its last
  6 elements.
\<close>

fun malformed_series :: "series \<Rightarrow> bool" where
  "malformed_series TsUndefined = False"
| "malformed_series TsNull = False"
| "malformed_series (TsBool b) = b"
| "malformed_series (TsNum r) = (r \<noteq> 0)"
| "malformed_series (TsStr s) = (s \<noteq> [])"
| "malformed_series (TsObj kvs) = (map_of kvs ''length'' \<noteq> Some (JNum 0))"
| "malformed_series (TsArr ts) = (None \<in> set (slice_last 6 ts))"


text \<open>The value the summary card prints for the probability \<open>k\<close>.\<close>

definition shown :: "json \<Rightarrow> string \<Rightarrow> json" where
  "shown ps k = (case summaryProb ps k of Inl e \<Rightarrow> JUndefined | Inr v \<Rightarrow> v)"

text \<open>The value is a string or falsy: \<^verbatim>\<open>data.city\<close> names the place by text or not at all.\<close>

definition text_or_falsy :: "json \<Rightarrow> bool" where
  "text_or_falsy v = (case v of JStr s \<Rightarrow> True | w \<Rightarrow> \<not> truthy w)"

text \<open>\<^verbatim>\<open>data.coords\<close> passes the test \<^verbatim>\<open>data.coords && data.coords.length === 2\<close>.\<close>

definition two_long :: "json \<Rightarrow> bool" where
  "two_long v = (truthy v \<and> getProp v ''length'' = Inr (JNum 2))"

text \<open>The two values of \<^verbatim>\<open>data.coords\<close> when it is an array of two elements or a string
  of two characters.\<close>

definition pair_of :: "json \<Rightarrow> (json \<times> json) option" where
  "pair_of v =
     (case v of
        JArr xs \<Rightarrow> if length xs = 2 then Some (xs ! 0, xs ! 1) else None
      | JStr s \<Rightarrow> if length s = 2 then Some (JStr [s ! 0], JStr [s ! 1]) else None
      | w \<Rightarrow> None)"

text \<open>
  The response makes the map code raise: \<^verbatim>\<open>coords\<close> is an object with \<^verbatim>\<open>length\<close> 2,
  or the page has a map, \<^verbatim>\<open>coords\<close> holds two values, and either Leaflet does not take
  them as a position or \<^verbatim>\<open>city\<close> is a truthy value that is not a string.
\<close>

definition map_raises :: "(json \<Rightarrow> json \<Rightarrow> bool) \<Rightarrow> response \<Rightarrow> page \<Rightarrow> bool" where
  "map_raises takes data p =
     (not_iterable2 (coords data) \<or>
      (map_obj p \<noteq> None \<and>
       (case pair_of (coords data) of
          None \<Rightarrow> False
        | Some (lat, lon) \<Rightarrow> \<not> taken takes lat lon \<or> \<not> text_or_falsy (city data))))"

text \<open>The probability \<open>k\<close> of the response is a value whose conversion to a string
  raises.\<close>

definition unprintable :: "json \<Rightarrow> string \<Rightarrow> bool" where
  "unprintable probs k = (case getProp probs k of Inl e \<Rightarrow> False | Inr v \<Rightarrow> toStringRaises v)"

text \<open>The response makes the summary card raise: one of the three values it prints
  cannot be converted to a string.\<close>

definition card_raises :: "response \<Rightarrow> bool" where
  "card_raises data =
     (unprintable (probabilities data) ''very_hot'' \<or> toStringRaises (city data) \<or>
      unprintable (probabilities data) ''very_wet'')"





text \<open>
  Reading a string in fixed notation back: an optional minus sign, the digits of the
  integer part, a point, and the digits of the fraction.
\<close>

definition is_digit :: "char \<Rightarrow> bool" where
  "is_digit c = (c \<in> set ''0123456789'')"

definition digit_value :: "char \<Rightarrow> nat" where
  "digit_value c = of_char c - 48"

definition number_of :: "string \<Rightarrow> nat" where
  "number_of s = foldl (\<lambda>a c. 10 * a + digit_value c) 0 s"

definition negative :: "string \<Rightarrow> bool" where
  "negative s = (case s of [] \<Rightarrow> False | c # cs \<Rightarrow> c = CHR ''-'')"

definition unsigned :: "string \<Rightarrow> string" where
  "unsigned s = (if negative s then tl s else s)"

definition int_part :: "string \<Rightarrow> string" where
  "int_part s = takeWhile (\<lambda>c. c \<noteq> CHR ''.'') (unsigned s)"

definition frac_part :: "string \<Rightarrow> string" where
  "frac_part s = drop (length (int_part s) + 1) (unsigned s)"

text \<open>\<open>s\<close> is a number written with exactly \<open>f\<close> decimal places.\<close>

definition fixed_notation :: "nat \<Rightarrow> string \<Rightarrow> bool" where
  "fixed_notation f s =
     (int_part s \<noteq> [] \<and> list_all is_digit (int_part s) \<and>
      length (unsigned s) = length (int_part s) + 1 + f \<and>
      list_all is_digit (frac_part s))"

text \<open>The number such a string denotes.\<close>

definition decimal_value :: "string \<Rightarrow> real" where
  "decimal_value s =
     (let v = real (number_of (int_part s @ frac_part s)) / 10 ^ length (frac_part s)
      in if negative s then - v else v)"

text \<open>The digit string of \<^verbatim>\<open>toFixed\<close> after padding.\<close>

definition padded :: "nat \<Rightarrow> nat \<Rightarrow> string" where
  "padded n f =
     (if length (digits n) \<le> f then replicate (f + 1 - length (digits n)) CHR ''0'' @ digits n
      else digits n)"

section \<open>Properties of the bar chart\<close>

lemma getProp_truthy: "truthy v \<Longrightarrow> \<exists>w. getProp v k = Inr w"
  by (cases v) simp_all

lemma prob_total: "\<exists>p. prob ps m = Inr p"
proof (cases "truthy ps")
  case True
  then obtain w where "getProp ps (key m) = Inr w" using getProp_truthy by blast
  then show ?thesis using True by (cases w) (simp_all add: prob_def)
next
  case False
  then show ?thesis by (simp add: prob_def)
qed

lemma barItem_barOf: "barItem ps m = Inr (barOf ps m)"
  using prob_total [of ps m] by (auto simp: barItem_def barOf_def probValue_def)

lemma forEach_bars_map: "forEach_bars ps ms acc = (None, acc @ map (barOf ps) ms)"
  by (induction ms arbitrary: acc) (simp_all add: barItem_barOf)

lemma renderBars_map: "renderBars ps sel = (None, map (barOf ps) (useDefs sel))"
  by (simp add: renderBars_def forEach_bars_map)

lemma lacks_number_zero: "lacks_number ps m \<Longrightarrow> probValue ps m = 0"
  by (cases "getProp ps (key m)"; cases ps)
     (auto simp: lacks_number_def probValue_def prob_def split: json.splits sum.splits)

text \<open>
  Claim C1. For every response and every metric rendered in the bar chart: when the
  probabilities mapping is absent, or lacks the metric's key, or maps it to a value that
  is not a number, the bar chart is rendered without a raise and the bar of that metric
  carries the metric's label, height 0 and the printed percentage 0.
\<close>

theorem bar_zero_without_number:
  assumes "i < length (useDefs sel)" and "lacks_number ps (useDefs sel ! i)"
  shows "\<exists>bars. renderBars ps sel = (None, bars) \<and> length bars = length (useDefs sel) \<and>
           bar_label (bars ! i) = label (useDefs sel ! i) \<and>
           bar_height (bars ! i) = 0 \<and> bar_percent (bars ! i) = 0"
  using assms by (simp add: renderBars_map barOf_def lacks_number_zero)

theorem bar_zero_without_number_witness:
  "1 < length (useDefs []) \<and>
   lacks_number (JObj [(''very_hot'', JNum 72), (''very_cold'', JStr ''high'')]) (useDefs [] ! 1) \<and>
   (\<exists>bars. renderBars (JObj [(''very_hot'', JNum 72), (''very_cold'', JStr ''high'')]) []
             = (None, bars) \<and> length bars = length (useDefs []) \<and>
           bar_label (bars ! 1) = label (useDefs [] ! 1) \<and>
           bar_height (bars ! 1) = 0 \<and> bar_percent (bars ! 1) = 0)"
proof -
  have a: "1 < length (useDefs [])" by (simp add: useDefs_def METRICS_def)
  have b: "lacks_number (JObj [(''very_hot'', JNum 72), (''very_cold'', JStr ''high'')])
             (useDefs [] ! 1)"
    by (simp add: useDefs_def METRICS_def lacks_number_def)
  show ?thesis using a b bar_zero_without_number [OF a b] by blast
qed

lemma idents: "map ident METRICS = [''hot'', ''cold'', ''wet'', ''windy'', ''uncomfortable'']"
  by (simp add: METRICS_def)

lemma distinct_METRICS: "distinct METRICS"
  by (simp add: METRICS_def)

text \<open>
  Claim C2. For every selection: the bars are those of \<^verbatim>\<open>useDefs\<close>, one per metric and
  labelled in its order. With an empty selection these are all 5 metrics of the table;
  with a non-empty one they are exactly the metrics of the table whose identifier is
  selected, each once. In both cases they stand in the order of the table, which is
  hot, cold, wet, windy, uncomfortable.
\<close>

theorem bars_follow_selection:
  "\<exists>bars. renderBars ps sel = (None, bars) \<and>
      map bar_label bars = map label (useDefs sel) \<and>
      (sel = [] \<longrightarrow> useDefs sel = METRICS \<and> length bars = 5) \<and>
      (sel \<noteq> [] \<longrightarrow> set (useDefs sel) = {m \<in> set METRICS. ident m \<in> set sel}) \<and>
      distinct (useDefs sel) \<and> subseq (useDefs sel) METRICS \<and>
      map ident METRICS = [''hot'', ''cold'', ''wet'', ''windy'', ''uncomfortable'']"
  by (auto simp: renderBars_map barOf_def useDefs_def idents distinct_METRICS comp_def)
     (simp add: METRICS_def)

theorem bars_follow_selection_witness:
  "map bar_label (snd (renderBars JUndefined [''wet'', ''hot''])) = [''Very hot'', ''Very wet''] \<and>
   map bar_label (snd (renderBars JUndefined [])) =
     [''Very hot'', ''Very cold'', ''Very wet'', ''Very windy'', ''Uncomfortable'']"
proof -
  have l1: "map label (useDefs [''wet'', ''hot'']) = [''Very hot'', ''Very wet'']"
    by (simp add: useDefs_def METRICS_def)
  have l2: "map label (useDefs []) =
     [''Very hot'', ''Very cold'', ''Very wet'', ''Very windy'', ''Uncomfortable'']"
    by (simp add: useDefs_def METRICS_def)
  show ?thesis
    using bars_follow_selection [of JUndefined "[''wet'', ''hot'']"] bars_follow_selection [of JUndefined "[]"] l1 l2
    by (metis snd_conv)
qed

text \<open>
  Claim C10. A non-empty selection none of whose identifiers is in the metric table
  renders no bar at all (the chart is not filled with all 5 metrics); in a selection
  that has known identifiers too, the unknown ones change nothing.
\<close>

theorem unknown_selection_no_bars:
  assumes "sel \<noteq> []"
  shows "((\<forall>s \<in> set sel. \<not> known s) \<longrightarrow> renderBars ps sel = (None, [])) \<and>
         (filter known sel \<noteq> [] \<longrightarrow> renderBars ps sel = renderBars ps (filter known sel))"
proof -
  have eq: "filter (\<lambda>m. ident m \<in> set sel) METRICS
          = filter (\<lambda>m. ident m \<in> set (filter known sel)) METRICS"
    by (rule filter_cong) (auto simp: known_def)
  have "(\<forall>s \<in> set sel. \<not> known s) \<Longrightarrow> filter (\<lambda>m. ident m \<in> set sel) METRICS = []"
    by (auto simp: known_def filter_empty_conv)
  then show ?thesis using assms eq by (auto simp: renderBars_map useDefs_def)
qed

theorem unknown_selection_no_bars_witness:
  "renderBars JUndefined [''sunny'', ''foggy''] = (None, []) \<and>
   renderBars JUndefined [''sunny'', ''wet''] = renderBars JUndefined [''wet'']"
proof -
  have k1: "\<forall>s \<in> set [''sunny'', ''foggy'']. \<not> known s"
    by (simp add: known_def METRICS_def)
  have k2: "filter known [''sunny'', ''wet''] = [''wet'']"
    by (simp add: known_def METRICS_def)
  have n1: "[''sunny'', ''foggy''] \<noteq> []" and n2: "[''sunny'', ''wet''] \<noteq> []" by simp_all
  show ?thesis
    using unknown_selection_no_bars [OF n1, of JUndefined] unknown_selection_no_bars [OF n2, of JUndefined] k1 k2 by simp
qed

section \<open>Properties of the trend line chart\<close>

lemma fold_max_ge: "z \<le> fold max xs (z::real)"
  by (induction xs arbitrary: z) (auto intro: order_trans [OF max.cobounded2])

lemma fold_max_Max: "xs \<noteq> [] \<Longrightarrow> fold max xs (z::real) = max z (Max (set xs))"
proof (induction xs arbitrary: z)
  case Nil
  then show ?case by simp
next
  case (Cons x xs)
  show ?case
  proof (cases "xs = []")
    case True
    then show ?thesis by (simp add: max.commute)
  next
    case False
    then have "fold max xs (max x z) = max (max x z) (Max (set xs))" by (rule Cons.IH)
    also have "\<dots> = max z (Max (insert x (set xs)))"
      using False by (simp add: max.assoc max.commute max.left_commute)
    finally show ?thesis by simp
  qed
qed

lemma slice_last_nonempty: "ts \<noteq> [] \<Longrightarrow> slice_last 6 ts \<noteq> []"
  by (cases ts) (auto simp: slice_last_def)

lemma slice_last_long: "6 < length ts \<Longrightarrow> length (slice_last 6 ts) = 6"
  by (simp add: slice_last_def)

lemma slice_last_idem: "slice_last 6 (slice_last 6 ts) = slice_last 6 ts"
  by (simp add: slice_last_def)

lemma circles_simps: "circles [] = []" "circles (e # es) = circle_of e @ circles es"
  by (simp_all add: circles_def)

lemma paths_simps: "paths [] = []" "paths (e # es) = path_of e @ paths es"
  by (simp_all add: paths_def)

lemma axis_labels_simps:
  "axis_labels [] = []" "axis_labels (e # es) = axis_label_of e @ axis_labels es"
  by (simp_all add: axis_labels_def)

lemma circles_append: "circles (xs @ ys) = circles xs @ circles ys"
  by (simp add: circles_def)

lemma paths_append: "paths (xs @ ys) = paths xs @ paths ys"
  by (simp add: paths_def)

lemma axis_labels_append: "axis_labels (xs @ ys) = axis_labels xs @ axis_labels ys"
  by (simp add: axis_labels_def)

lemma circles_markers:
  "circles (concat (map (\<lambda>(i, p). markers n mh mw i p) ips))
     = concat (map (\<lambda>(i, p). [(xFor n i, yFor (orZero (hot p)) mh, ''#ff6b6b''),
                                (xFor n i, yFor (orZero (wet p)) mw, ''#70d6ff'')]) ips)"
  by (induction ips) (auto simp: circles_def markers_def yFor_def Let_def)

lemma paths_markers: "paths (concat (map (\<lambda>(i, p). markers n mh mw i p) ips)) = []"
  by (induction ips) (auto simp: paths_def markers_def Let_def)

lemma axis_labels_markers:
  "axis_labels (concat (map (\<lambda>(i, p). markers n mh mw i p) ips))
     = map (\<lambda>(i, p). (xFor n i, date p)) ips"
  by (induction ips) (auto simp: axis_labels_def markers_def Let_def)

lemma circles_legend: "circles legend = []"
  by (simp add: circles_def legend_def)

lemma paths_legend: "paths legend = []"
  by (simp add: paths_def legend_def)

lemma axis_labels_legend: "axis_labels legend = []"
  by (simp add: axis_labels_def legend_def)

lemma slice_last_map: "slice_last k (map f xs) = map f (slice_last k xs)"
  by (simp add: slice_last_def drop_map)

lemma those_map_Some: "those (map Some xs) = Some xs"
  by (induction xs) simp_all

lemma drawLineChart_points:
  "ts \<noteq> [] \<Longrightarrow> drawLineChart (TsArr (map Some ts)) =
     (None,
      [SvgLine leftPad topPad leftPad (topPad + height) ''#eee'',
       SvgPath (buildPath (length (slice_last 6 ts))
                  (map (\<lambda>p. orZero (hot p)) (slice_last 6 ts)) (maxHot (slice_last 6 ts)))
         ''#ff6b6b'',
       SvgPath (buildPath (length (slice_last 6 ts))
                  (map (\<lambda>p. orZero (wet p)) (slice_last 6 ts)) (maxWet (slice_last 6 ts)))
         ''#70d6ff'']
      @ concat (map (\<lambda>(i, p). markers (length (slice_last 6 ts)) (maxHot (slice_last 6 ts))
                                   (maxWet (slice_last 6 ts)) i p)
                  (enumerate 0 (slice_last 6 ts)))
      @ legend)"
  by (simp add: slice_last_map those_map_Some Let_def)

lemma drawLineChart_window: "drawLineChart (TsArr ts) = drawLineChart (TsArr (slice_last 6 ts))"
proof (cases "ts = []")
  case True
  then show ?thesis by (simp add: slice_last_def)
next
  case False
  then have "slice_last 6 ts \<noteq> []" by (rule slice_last_nonempty)
  with False show ?thesis by (simp add: slice_last_idem)
qed

lemma drawn_window: "drawn ts = drawn (slice_last 6 ts)"
  unfolding drawn_def by (subst drawLineChart_window) (simp add: slice_last_map)

lemma circles_drawn:
  "ts \<noteq> [] \<Longrightarrow> circles (drawn ts)
     = concat (map (\<lambda>(i, p).
         [(xFor (length (slice_last 6 ts)) i,
           yFor (orZero (hot p)) (maxHot (slice_last 6 ts)), ''#ff6b6b''),
          (xFor (length (slice_last 6 ts)) i,
           yFor (orZero (wet p)) (maxWet (slice_last 6 ts)), ''#70d6ff'')])
         (enumerate 0 (slice_last 6 ts)))"
  unfolding drawn_def
  by (subst drawLineChart_points)
     (simp_all add: circles_append circles_markers circles_legend circles_simps)

lemma axis_labels_drawn:
  "ts \<noteq> [] \<Longrightarrow> axis_labels (drawn ts)
     = map (\<lambda>(i, p). (xFor (length (slice_last 6 ts)) i, date p))
         (enumerate 0 (slice_last 6 ts))"
  unfolding drawn_def
  by (subst drawLineChart_points)
     (simp_all add: axis_labels_append axis_labels_markers axis_labels_legend axis_labels_simps)

lemma paths_drawn:
  "ts \<noteq> [] \<Longrightarrow> paths (drawn ts)
     = [(buildPath (length (slice_last 6 ts)) (map (\<lambda>p. orZero (hot p)) (slice_last 6 ts))
           (maxHot (slice_last 6 ts)), ''#ff6b6b''),
        (buildPath (length (slice_last 6 ts)) (map (\<lambda>p. orZero (wet p)) (slice_last 6 ts))
           (maxWet (slice_last 6 ts)), ''#70d6ff'')]"
  unfolding drawn_def
  by (subst drawLineChart_points)
     (simp_all add: paths_append paths_markers paths_legend paths_simps)

lemma noData_parts: "paths noData = []" "circles noData = []" "axis_labels noData = []"
  by (simp_all add: noData_def paths_def circles_def axis_labels_def)

text \<open>
  Claim C8. For every non-empty time series, on its window of at most 6 points: the
  scaling maximum of each series is the maximum of the series' values over the window,
  but not less than 1; so it is at least 1 and not zero, and \<^verbatim>\<open>ratio\<close> never takes
  its \<^verbatim>\<open>maxVal === 0\<close> branch: it is the plain quotient. These two maxima are the
  ones the paths and the marker circles of the chart divide by.
\<close>

theorem scaling_maximum:
  assumes "ts \<noteq> []"
  shows "maxHot (slice_last 6 ts)
           = max 1 (Max (set (map (\<lambda>p. orZero (hot p)) (slice_last 6 ts)))) \<and>
         maxWet (slice_last 6 ts)
           = max 1 (Max (set (map (\<lambda>p. orZero (wet p)) (slice_last 6 ts)))) \<and>
         1 \<le> maxHot (slice_last 6 ts) \<and> 1 \<le> maxWet (slice_last 6 ts) \<and>
         maxHot (slice_last 6 ts) \<noteq> 0 \<and> maxWet (slice_last 6 ts) \<noteq> 0 \<and>
         ratio v (maxHot (slice_last 6 ts)) = v / maxHot (slice_last 6 ts) \<and>
         ratio v (maxWet (slice_last 6 ts)) = v / maxWet (slice_last 6 ts) \<and>
         paths (drawn ts)
           = [(buildPath (length (slice_last 6 ts))
                 (map (\<lambda>p. orZero (hot p)) (slice_last 6 ts)) (maxHot (slice_last 6 ts)),
               ''#ff6b6b''),
              (buildPath (length (slice_last 6 ts))
                 (map (\<lambda>p. orZero (wet p)) (slice_last 6 ts)) (maxWet (slice_last 6 ts)),
               ''#70d6ff'')] \<and>
         circles (drawn ts)
           = concat (map (\<lambda>(i, p).
               [(xFor (length (slice_last 6 ts)) i,
                 yFor (orZero (hot p)) (maxHot (slice_last 6 ts)), ''#ff6b6b''),
                (xFor (length (slice_last 6 ts)) i,
                 yFor (orZero (wet p)) (maxWet (slice_last 6 ts)), ''#70d6ff'')])
               (enumerate 0 (slice_last 6 ts)))"
proof -
  let ?w = "slice_last 6 ts"
  have ne: "?w \<noteq> []" using assms by (rule slice_last_nonempty)
  have h: "maxHot ?w = max 1 (Max (set (map (\<lambda>p. orZero (hot p)) ?w)))"
    unfolding maxHot_def Math_max_def using ne by (intro fold_max_Max) simp
  have w: "maxWet ?w = max 1 (Max (set (map (\<lambda>p. orZero (wet p)) ?w)))"
    unfolding maxWet_def Math_max_def using ne by (intro fold_max_Max) simp
  have gh: "1 \<le> maxHot ?w" unfolding maxHot_def Math_max_def by (rule fold_max_ge)
  have gw: "1 \<le> maxWet ?w" unfolding maxWet_def Math_max_def by (rule fold_max_ge)
  have nh: "maxHot ?w \<noteq> 0" using gh by linarith
  have nw: "maxWet ?w \<noteq> 0" using gw by linarith
  have rh: "ratio v (maxHot ?w) = v / maxHot ?w" using nh by (simp add: ratio_def)
  have rw: "ratio v (maxWet ?w) = v / maxWet ?w" using nw by (simp add: ratio_def)
  note pd = paths_drawn [OF assms] and cd = circles_drawn [OF assms]
  from h w gh gw nh nw rh rw pd cd show ?thesis by (intro conjI)
qed

theorem scaling_maximum_witness:
  "[\<lparr>date = ''2024-01-01'', hot = Some 3, wet = None\<rparr>] \<noteq> [] \<and>
   maxHot (slice_last 6 [\<lparr>date = ''2024-01-01'', hot = Some 3, wet = None\<rparr>]) = 3 \<and>
   maxWet (slice_last 6 [\<lparr>date = ''2024-01-01'', hot = Some 3, wet = None\<rparr>]) = 1"
proof -
  let ?ts = "[\<lparr>date = ''2024-01-01'', hot = Some 3, wet = None\<rparr>]"
  have ne: "?ts \<noteq> []" by simp
  have "maxHot (slice_last 6 ?ts)
           = max 1 (Max (set (map (\<lambda>p. orZero (hot p)) (slice_last 6 ?ts))))"
    using scaling_maximum [OF ne] by blast
  also have "\<dots> = 3" by (simp add: slice_last_def orZero_def)
  finally have h: "maxHot (slice_last 6 ?ts) = 3" .
  have "maxWet (slice_last 6 ?ts)
           = max 1 (Max (set (map (\<lambda>p. orZero (wet p)) (slice_last 6 ?ts))))"
    using scaling_maximum [OF ne] by blast
  also have "\<dots> = 1" by (simp add: slice_last_def orZero_def)
  finally have w: "maxWet (slice_last 6 ?ts) = 1" .
  from ne h w show ?thesis by (intro conjI)
qed

text \<open>
  Claim C3. A time series of more than 6 points is rendered as its last 6 points are:
  the chart is the chart of the window, and the axis labels, the marker circles and the
  two paths are those of the 6 window points in their order. An empty time series gives
  the placeholder text alone: no path, no circle, no axis label. (Whatever the elements
  of the array are, the chart depends on the last 6 of them only.)
\<close>

theorem line_chart_window:
  "(6 < length ts \<longrightarrow>
      fst (drawLineChart (TsArr (map Some ts))) = None \<and>
      length (slice_last 6 ts) = 6 \<and>
      slice_last 6 ts = drop (length ts - 6) ts \<and>
      drawn ts = drawn (slice_last 6 ts) \<and>
      axis_labels (drawn ts)
        = map (\<lambda>(i, p). (xFor 6 i, date p)) (enumerate 0 (slice_last 6 ts)) \<and>
      circles (drawn ts)
        = concat (map (\<lambda>(i, p).
            [(xFor 6 i, yFor (orZero (hot p)) (maxHot (slice_last 6 ts)), ''#ff6b6b''),
             (xFor 6 i, yFor (orZero (wet p)) (maxWet (slice_last 6 ts)), ''#70d6ff'')])
            (enumerate 0 (slice_last 6 ts))) \<and>
      paths (drawn ts)
        = [(buildPath 6 (map (\<lambda>p. orZero (hot p)) (slice_last 6 ts))
              (maxHot (slice_last 6 ts)), ''#ff6b6b''),
           (buildPath 6 (map (\<lambda>p. orZero (wet p)) (slice_last 6 ts))
              (maxWet (slice_last 6 ts)), ''#70d6ff'')]) \<and>
   (length ts = 0 \<longrightarrow>
      drawLineChart (TsArr (map Some ts))
        = (None, [SvgText 20 100 [(''fill'', ''#999'')] ''No time-series data'']) \<and>
      paths (drawn ts) = [] \<and> circles (drawn ts) = [] \<and> axis_labels (drawn ts) = []) \<and>
   drawLineChart (TsArr es) = drawLineChart (TsArr (slice_last 6 es))"
proof (intro conjI impI)
  assume long: "6 < length ts"
  then have ne: "ts \<noteq> []" by auto
  show "fst (drawLineChart (TsArr (map Some ts))) = None"
    by (subst drawLineChart_points [OF ne]) simp
  show "length (slice_last 6 ts) = 6" using long by (rule slice_last_long)
  show "slice_last 6 ts = drop (length ts - 6) ts" by (simp add: slice_last_def)
  show "drawn ts = drawn (slice_last 6 ts)" by (rule drawn_window)
  show "axis_labels (drawn ts)
        = map (\<lambda>(i, p). (xFor 6 i, date p)) (enumerate 0 (slice_last 6 ts))"
    using axis_labels_drawn [OF ne] slice_last_long [OF long] by simp
  show "circles (drawn ts)
        = concat (map (\<lambda>(i, p).
            [(xFor 6 i, yFor (orZero (hot p)) (maxHot (slice_last 6 ts)), ''#ff6b6b''),
             (xFor 6 i, yFor (orZero (wet p)) (maxWet (slice_last 6 ts)), ''#70d6ff'')])
            (enumerate 0 (slice_last 6 ts)))"
    using circles_drawn [OF ne] slice_last_long [OF long] by simp
  show "paths (drawn ts)
        = [(buildPath 6 (map (\<lambda>p. orZero (hot p)) (slice_last 6 ts))
              (maxHot (slice_last 6 ts)), ''#ff6b6b''),
           (buildPath 6 (map (\<lambda>p. orZero (wet p)) (slice_last 6 ts))
              (maxWet (slice_last 6 ts)), ''#70d6ff'')]"
    using paths_drawn [OF ne] slice_last_long [OF long] by simp
next
  assume e: "length ts = 0"
  then show "drawLineChart (TsArr (map Some ts))
        = (None, [SvgText 20 100 [(''fill'', ''#999'')] ''No time-series data''])"
    by (simp add: noData_def viewH_def)
  from e show "paths (drawn ts) = []" by (simp add: drawn_def noData_parts)
  from e show "circles (drawn ts) = []" by (simp add: drawn_def noData_parts)
  from e show "axis_labels (drawn ts) = []" by (simp add: drawn_def noData_parts)
next
  show "drawLineChart (TsArr es) = drawLineChart (TsArr (slice_last 6 es))"
    by (rule drawLineChart_window)
qed

theorem line_chart_window_witness:
  "6 < length (map (\<lambda>d. \<lparr>date = d, hot = Some 1, wet = None\<rparr>)
                 [''d1'', ''d2'', ''d3'', ''d4'', ''d5'', ''d6'', ''d7'']) \<and>
   map snd (axis_labels (drawn (map (\<lambda>d. \<lparr>date = d, hot = Some 1, wet = None\<rparr>)
                 [''d1'', ''d2'', ''d3'', ''d4'', ''d5'', ''d6'', ''d7''])))
     = [''d2'', ''d3'', ''d4'', ''d5'', ''d6'', ''d7''] \<and>
   length ([] :: point list) = 0 \<and>
   drawLineChart (TsArr (map Some [])) =
     (None, [SvgText 20 100 [(''fill'', ''#999'')] ''No time-series data''])"
proof -
  let ?ts = "map (\<lambda>d. \<lparr>date = d, hot = Some 1, wet = None\<rparr>)
                 [''d1'', ''d2'', ''d3'', ''d4'', ''d5'', ''d6'', ''d7'']"
  have long: "6 < length ?ts" by simp
  have "axis_labels (drawn ?ts)
        = map (\<lambda>(i, p). (xFor 6 i, date p)) (enumerate 0 (slice_last 6 ?ts))"
    using line_chart_window [of ?ts] long by blast
  then have a: "map snd (axis_labels (drawn ?ts))
        = [''d2'', ''d3'', ''d4'', ''d5'', ''d6'', ''d7'']"
    by (simp add: slice_last_def)
  have e: "drawLineChart (TsArr (map Some [])) =
     (None, [SvgText 20 100 [(''fill'', ''#999'')] ''No time-series data''])"
    using line_chart_window [of "[]"] by simp
  from long a e show ?thesis by simp
qed

text \<open>
  Claim C9. When the window holds exactly one point, its x-position is the middle of
  the drawing area, which spans from \<^verbatim>\<open>leftPad\<close> to \<^verbatim>\<open>viewW - rightPad\<close>; the axis
  label and both marker circles stand there.
\<close>

theorem single_point_centered:
  assumes "length (slice_last 6 ts) = 1"
  shows "xFor (length (slice_last 6 ts)) 0 = (leftPad + (viewW - rightPad)) / 2 \<and>
         map fst (axis_labels (drawn ts)) = [(leftPad + (viewW - rightPad)) / 2] \<and>
         map fst (circles (drawn ts))
           = [(leftPad + (viewW - rightPad)) / 2, (leftPad + (viewW - rightPad)) / 2]"
proof -
  have ne: "ts \<noteq> []" using assms by (auto simp: slice_last_def)
  obtain p where w: "slice_last 6 ts = [p]"
    using assms by (cases "slice_last 6 ts") auto
  have x: "xFor 1 0 = (leftPad + (viewW - rightPad)) / 2"
    by (simp add: xFor_def width_def leftPad_def viewW_def rightPad_def)
  show ?thesis
    using x by (simp add: axis_labels_drawn [OF ne] circles_drawn [OF ne] w)
qed

theorem single_point_centered_witness:
  "length (slice_last 6 [\<lparr>date = ''2024-01-01'', hot = Some 3, wet = None\<rparr>]) = 1 \<and>
   xFor (length (slice_last 6 [\<lparr>date = ''2024-01-01'', hot = Some 3, wet = None\<rparr>])) 0 = 260 \<and>
   map fst (circles (drawn [\<lparr>date = ''2024-01-01'', hot = Some 3, wet = None\<rparr>]))
     = [260, 260]"
proof -
  let ?ts = "[\<lparr>date = ''2024-01-01'', hot = Some 3, wet = None\<rparr>]"
  have l: "length (slice_last 6 ?ts) = 1" by (simp add: slice_last_def)
  have c: "(leftPad + (viewW - rightPad)) / 2 = 260"
    by (simp add: leftPad_def viewW_def rightPad_def)
  show ?thesis using single_point_centered [OF l] l c by simp
qed

section \<open>Properties of the number formatting\<close>

lemma digits_small: "n < 10 \<Longrightarrow> digits n = [digit_char n]"
  by (simp add: digits.simps)

lemma digits_large: "10 \<le> n \<Longrightarrow> digits n = digits (n div 10) @ [digit_char (n mod 10)]"
  by (subst digits.simps) simp

lemma replicate_numeral: "replicate (numeral k) x = x # replicate (pred_numeral k) x"
  by (simp add: numeral_eq_Suc)

lemmas toFixed_eval =
  toFixed_def digits_small digits_large digit_char_def Let_def replicate_numeral

lemma below_ten: "d < 10 \<Longrightarrow> d \<in> {0, 1, 2, 3, 4, 5, 6, 7, 8, 9::nat}"
  by auto

lemma digit_char_digit: "d < 10 \<Longrightarrow> is_digit (digit_char d)"
  using below_ten [of d] by (auto simp: is_digit_def digit_char_def)

lemma digit_value_char: "d < 10 \<Longrightarrow> digit_value (digit_char d) = d"
  using below_ten [of d] by (auto simp: digit_value_def digit_char_def)

lemma digits_all: "list_all is_digit (digits n)"
proof (induction n rule: digits.induct)
  case (1 n)
  show ?case
  proof (cases "n < 10")
    case True
    then show ?thesis by (simp add: digits_small digit_char_digit)
  next
    case False
    then show ?thesis using 1 by (simp add: digits_large digit_char_digit)
  qed
qed

lemma number_of_snoc: "number_of (s @ [c]) = 10 * number_of s + digit_value c"
  by (simp add: number_of_def)

lemma number_of_digits: "number_of (digits n) = n"
proof (induction n rule: digits.induct)
  case (1 n)
  show ?case
  proof (cases "n < 10")
    case True
    then show ?thesis by (simp add: digits_small number_of_def digit_value_char)
  next
    case False
    then have "number_of (digits (n div 10)) = n div 10" using 1 by simp
    then show ?thesis using False
      by (simp add: digits_large number_of_snoc digit_value_char)
  qed
qed

lemma number_of_zeros: "number_of (replicate j CHR ''0'' @ s) = number_of s"
  by (induction j) (simp_all add: number_of_def digit_value_def)

lemma takeWhile_until:
  "\<forall>c \<in> set a. P c \<Longrightarrow> \<not> P d \<Longrightarrow> takeWhile P (a @ d # b) = a"
  by (induction a) simp_all

lemma digit_not_point: "is_digit c \<Longrightarrow> c \<noteq> CHR ''.''"
  by (auto simp: is_digit_def)

lemma digit_not_minus: "is_digit c \<Longrightarrow> c \<noteq> CHR ''-''"
  by (auto simp: is_digit_def)

lemma padded_long: "f < length (padded n f)"
  by (simp add: padded_def)

lemma padded_all: "list_all is_digit (padded n f)"
  using digits_all [of n] by (auto simp: padded_def list_all_iff is_digit_def)

lemma padded_number: "number_of (padded n f) = n"
  by (simp add: padded_def number_of_zeros number_of_digits)

lemma toFixed_shape:
  "0 < f \<Longrightarrow>
   toFixed x f = (if x < 0 then ''-'' else []) @
     take (length (padded (nat \<lfloor>\<bar>x\<bar> * 10 ^ f + 1 / 2\<rfloor>) f) - f)
       (padded (nat \<lfloor>\<bar>x\<bar> * 10 ^ f + 1 / 2\<rfloor>) f) @ ''.'' @
     drop (length (padded (nat \<lfloor>\<bar>x\<bar> * 10 ^ f + 1 / 2\<rfloor>) f) - f)
       (padded (nat \<lfloor>\<bar>x\<bar> * 10 ^ f + 1 / 2\<rfloor>) f)"
  by (simp add: toFixed_def padded_def Let_def)

lemma fixed_parts:
  assumes a: "a \<noteq> []" "list_all is_digit a" and b: "list_all is_digit b"
    and s: "s = (if neg then ''-'' else []) @ a @ ''.'' @ b"
  shows "negative s = neg" and "unsigned s = a @ ''.'' @ b" and "int_part s = a"
    and "frac_part s = b"
proof -
  obtain c cs where c: "a = c # cs" using a(1) by (cases a) auto
  then have "c \<noteq> CHR ''-''" using a(2) by (simp add: digit_not_minus)
  then show n: "negative s = neg" using s c by (simp add: negative_def)
  then show u: "unsigned s = a @ ''.'' @ b" using s by (simp add: unsigned_def)
  have "\<forall>c \<in> set a. c \<noteq> CHR ''.''" using a(2) by (auto simp: list_all_iff digit_not_point)
  then show i: "int_part s = a" by (simp add: int_part_def u takeWhile_until)
  show "frac_part s = b" by (simp add: frac_part_def i u)
qed

lemma round_half_close:
  assumes "0 \<le> (y::real)"
  shows "\<bar>real (nat \<lfloor>y + 1 / 2\<rfloor>) - y\<bar> \<le> 1 / 2"
proof -
  have "0 \<le> \<lfloor>y + 1 / 2\<rfloor>" using assms by simp
  then have r: "real (nat \<lfloor>y + 1 / 2\<rfloor>) = of_int \<lfloor>y + 1 / 2\<rfloor>" by simp
  have "of_int \<lfloor>y + 1 / 2\<rfloor> \<le> y + 1 / 2" by (rule of_int_floor_le)
  moreover have "y + 1 / 2 < of_int \<lfloor>y + 1 / 2\<rfloor> + 1" by (rule real_of_int_floor_add_one_gt)
  ultimately show ?thesis unfolding r by linarith
qed

text \<open>
  \<^verbatim>\<open>toFixed\<close> with \<open>f > 0\<close> writes fixed notation with \<open>f\<close> decimal places, and the
  number written is the argument rounded to that many places.
\<close>

lemma toFixed_format:
  assumes f: "0 < f"
  shows "fixed_notation f (toFixed x f) \<and>
         \<bar>decimal_value (toFixed x f) - x\<bar> \<le> 1 / (2 * 10 ^ f)"
proof -
  define n where "n = nat \<lfloor>\<bar>x\<bar> * 10 ^ f + 1 / 2\<rfloor>"
  define m where "m = padded n f"
  define a where "a = take (length m - f) m"
  define b where "b = drop (length m - f) m"
  have long: "f < length m" unfolding m_def by (rule padded_long)
  have all: "list_all is_digit m" unfolding m_def by (rule padded_all)
  have ab: "a @ b = m" by (simp add: a_def b_def)
  have a_ne: "a \<noteq> []" using long by (auto simp: a_def)
  have b_len: "length b = f" using long by (simp add: b_def)
  have a_all: "list_all is_digit a" using all by (auto simp: a_def list_all_iff dest: in_set_takeD)
  have b_all: "list_all is_digit b" using all by (auto simp: b_def list_all_iff dest: in_set_dropD)
  have s: "toFixed x f = (if x < 0 then ''-'' else []) @ a @ ''.'' @ b"
    using toFixed_shape [OF f, of x] by (simp add: a_def b_def m_def n_def)
  note parts = fixed_parts [OF a_ne a_all b_all s]
  have fmt: "fixed_notation f (toFixed x f)"
    by (simp add: fixed_notation_def parts a_ne a_all b_all b_len)
  have num: "number_of (a @ b) = n" by (simp add: ab m_def padded_number)
  have v: "decimal_value (toFixed x f) = (if x < 0 then - (real n / 10 ^ f) else real n / 10 ^ f)"
    by (simp add: decimal_value_def parts num b_len Let_def)
  have "\<bar>real n - \<bar>x\<bar> * 10 ^ f\<bar> \<le> 1 / 2"
    unfolding n_def by (rule round_half_close) simp
  then have "\<bar>real n - \<bar>x\<bar> * 10 ^ f\<bar> / 10 ^ f \<le> (1 / 2) / 10 ^ f"
    by (rule divide_right_mono) simp
  moreover have "\<bar>real n - \<bar>x\<bar> * 10 ^ f\<bar> / 10 ^ f = \<bar>real n / 10 ^ f - \<bar>x\<bar>\<bar>"
  proof -
    have "\<bar>real n - \<bar>x\<bar> * 10 ^ f\<bar> / 10 ^ f = \<bar>(real n - \<bar>x\<bar> * 10 ^ f) / 10 ^ f\<bar>"
      by simp
    also have "(real n - \<bar>x\<bar> * 10 ^ f) / 10 ^ f = real n / 10 ^ f - \<bar>x\<bar>"
      by (simp add: diff_divide_distrib)
    finally show ?thesis .
  qed
  ultimately have close: "\<bar>real n / 10 ^ f - \<bar>x\<bar>\<bar> \<le> 1 / (2 * 10 ^ f)" by simp
  have "\<bar>decimal_value (toFixed x f) - x\<bar> \<le> 1 / (2 * 10 ^ f)"
  proof (cases "x < 0")
    case True
    then have "\<bar>decimal_value (toFixed x f) - x\<bar> = \<bar>real n / 10 ^ f - \<bar>x\<bar>\<bar>"
      by (simp add: v)
    then show ?thesis using close by simp
  next
    case False
    then have "\<bar>decimal_value (toFixed x f) - x\<bar> = \<bar>real n / 10 ^ f - \<bar>x\<bar>\<bar>"
      by (simp add: v)
    then show ?thesis using close by simp
  qed
  with fmt show ?thesis by simp
qed

section \<open>The loading flag\<close>

lemma loading_addMarker: "loading (addMarker pos c m p) = loading p"
  by (simp add: addMarker_def Let_def)

lemma markerChain_text: "markerChain pos (JStr s) m p = (None, addMarker pos (JStr s) m p)"
  by (simp add: markerChain_def popupOpens_def)

lemma mapClick_eq:
  "mapClick a b p =
     (case map_obj p of
        None \<Rightarrow> p
      | Some m \<Rightarrow>
          (addMarker (JStr (toFixed a 5), JStr (toFixed b 5))
             (JStr (''Selected Location: '' @ toFixed a 5 @ '', '' @ toFixed b 5))
             (removeOld (marker p) m) p)
          \<lparr>pinInput := toFixed a 5 @ '','' @ toFixed b 5, cityInput := []\<rparr>)"
  by (simp only: mapClick_def Let_def markerChain_text prod.case option.case)

lemma loading_mapClick: "loading (mapClick a b p) = loading p"
  by (simp add: mapClick_eq loading_addMarker split: option.splits)

lemma loading_startup: "loading (startup today doc) = loading doc"
  by (simp add: startup_def domContentLoaded_def scriptLoad_def loading_addMarker)

lemma before_query_idle: "before_query p \<Longrightarrow> \<not> loading p"
  by (induction rule: before_query.induct)
     (simp_all add: loading_startup loading_mapClick document0_def downloadCSV_def
        downloadJSON_def)

lemma loading_settle: "loading (settle takes l res p) = False"
  by (simp add: settle_def finallyBlock_def split: prod.splits option.splits)

text \<open>
  Claim C4. The loading flag is false on every page reached before the first query. A
  call of \<^verbatim>\<open>checkWeather\<close> sets it while the request is outstanding, and once the
  request has settled the flag is false again, whatever it settled to (success, a
  non-success status, a network failure or a body that is not JSON), whatever was raised
  while rendering, and whatever happened on the page in between.
\<close>

theorem loading_cleared:
  "(before_query p \<longrightarrow> \<not> loading p) \<and>
   loading (dispatch q) \<and>
   \<not> loading (settle takes l res q) \<and>
   \<not> loading (checkWeather takes res q)"
  by (simp add: before_query_idle loading_settle checkWeather_def dispatch_def)

theorem loading_cleared_witness:
  "before_query (mapClick 24.9 67.1 (startup ''2025-01-01'' document0)) \<and>
   \<not> loading (mapClick 24.9 67.1 (startup ''2025-01-01'' document0)) \<and>
   \<not> loading (checkWeather (\<lambda>lat lon. True) (Rejected ''Failed to fetch'')
                 (mapClick 24.9 67.1 (startup ''2025-01-01'' document0)))"
proof -
  have b: "before_query (mapClick 24.9 67.1 (startup ''2025-01-01'' document0))"
    by (intro bq_click bq_start)
  show ?thesis
    using b loading_cleared [of "mapClick 24.9 67.1 (startup ''2025-01-01'' document0)"
                   "mapClick 24.9 67.1 (startup ''2025-01-01'' document0)" "\<lambda>lat lon. True" _
                   "Rejected ''Failed to fetch''"]
    by blast
qed

section \<open>The marker on the map\<close>








lemma popupOpens_displayName: "popupOpens (displayName c s) = text_or_falsy c"
  by (cases c) (simp_all add: displayName_def popupOpens_def text_or_falsy_def)













section \<open>The map click\<close>

text \<open>
  Claim C5. After a click on the map at \<open>(elat, elng)\<close> the pin input holds the two
  coordinates as \<^verbatim>\<open>toFixed(5)\<close> writes them, joined by a comma, and the city input is
  empty. Each of the two strings is a number in fixed notation with exactly 5 decimal
  places, and the number it denotes is within half a unit of the fifth place of the
  coordinate. (The coordinates of a click are below \<open>10\<^sup>2\<^sup>1\<close> in magnitude, where
  \<^verbatim>\<open>toFixed\<close> uses fixed notation.)
\<close>

theorem map_click_pin:
  assumes "map_obj p \<noteq> None" and "\<bar>elat\<bar> < 10 ^ 21" and "\<bar>elng\<bar> < 10 ^ 21"
  shows "pinInput (mapClick elat elng p) = toFixed elat 5 @ '','' @ toFixed elng 5 \<and>
         cityInput (mapClick elat elng p) = [] \<and>
         fixed_notation 5 (toFixed elat 5) \<and> fixed_notation 5 (toFixed elng 5) \<and>
         \<bar>decimal_value (toFixed elat 5) - elat\<bar> \<le> 1 / 200000 \<and>
         \<bar>decimal_value (toFixed elng 5) - elng\<bar> \<le> 1 / 200000"
proof -
  obtain m where m: "map_obj p = Some m" using assms(1) by auto
  have pin: "pinInput (mapClick elat elng p) = toFixed elat 5 @ '','' @ toFixed elng 5"
    by (simp add: mapClick_eq m)
  have cty: "cityInput (mapClick elat elng p) = []"
    by (simp add: mapClick_eq m)
  have fa: "fixed_notation 5 (toFixed elat 5) \<and>
            \<bar>decimal_value (toFixed elat 5) - elat\<bar> \<le> 1 / (2 * 10 ^ 5)"
    by (rule toFixed_format) simp
  have fb: "fixed_notation 5 (toFixed elng 5) \<and>
            \<bar>decimal_value (toFixed elng 5) - elng\<bar> \<le> 1 / (2 * 10 ^ 5)"
    by (rule toFixed_format) simp
  from pin cty fa fb show ?thesis by simp
qed

theorem map_click_pin_witness:
  "map_obj (startup ''2025-01-01'' document0) \<noteq> None \<and>
   \<bar>24.8607351 :: real\<bar> < 10 ^ 21 \<and> \<bar>- 67.0011 :: real\<bar> < 10 ^ 21 \<and>
   pinInput (mapClick 24.8607351 (- 67.0011) (startup ''2025-01-01'' document0))
     = ''24.86074,-67.00110'' \<and>
   cityInput (mapClick 24.8607351 (- 67.0011) (startup ''2025-01-01'' document0)) = []"
proof -
  have m: "map_obj (startup ''2025-01-01'' document0) \<noteq> None"
    by (simp add: startup_def domContentLoaded_def addMarker_def Let_def)
  have a: "\<bar>24.8607351 :: real\<bar> < 10 ^ 21" by simp
  have b: "\<bar>- 67.0011 :: real\<bar> < 10 ^ 21" by simp
  have ta: "toFixed 24.8607351 5 = ''24.86074''" by (simp add: toFixed_eval)
  have tb: "toFixed (- 67.0011) 5 = ''-67.00110''" by (simp add: toFixed_eval)
  show ?thesis
    using map_click_pin [OF m a b] m ta tb by simp
qed

section \<open>Raises while rendering\<close>

lemma pair_of_destructure2:
  "two_long v \<Longrightarrow>
   destructure2 v = (case pair_of v of None \<Rightarrow> Inl (TypeError ''data.coords is not iterable'')
                     | Some pr \<Rightarrow> Inr pr)"
  by (cases v) (auto simp: two_long_def pair_of_def split: if_splits)

lemma pair_of_two_long: "pair_of v = Some pr \<Longrightarrow> two_long v"
  by (cases v) (auto simp: two_long_def pair_of_def split: if_splits)

lemma not_iterable2_two_long: "not_iterable2 v \<Longrightarrow> two_long v \<and> pair_of v = None"
  by (cases v) (auto simp: two_long_def pair_of_def not_iterable2_def)

lemma two_long_shape: "two_long v \<Longrightarrow> pair_of v = None \<Longrightarrow> not_iterable2 v"
  by (cases v) (auto simp: two_long_def pair_of_def not_iterable2_def split: if_splits option.splits)

lemma updateMap_raises: "(fst (updateMap takes l data p) \<noteq> None) = map_raises takes data p"
proof (cases "two_long (coords data)")
  case False
  then have "updateMap takes l data p = (None, p)"
    by (auto simp: updateMap_def two_long_def)
  moreover have "\<not> map_raises takes data p"
    using False not_iterable2_two_long [of "coords data"] pair_of_two_long [of "coords data"]
    by (auto simp: map_raises_def split: option.splits)
  ultimately show ?thesis by simp
next
  case True
  then have g: "truthy (coords data) \<and> getProp (coords data) ''length'' = Inr (JNum 2)"
    by (simp add: two_long_def)
  show ?thesis
  proof (cases "pair_of (coords data)")
    case None
    then have "not_iterable2 (coords data)" using True by (simp add: two_long_shape)
    then show ?thesis
      using g pair_of_destructure2 [OF True] None
      by (simp add: updateMap_def map_raises_def)
  next
    case (Some pr)
    obtain lat lon where pr: "pr = (lat, lon)" by (cases pr)
    have n: "\<not> not_iterable2 (coords data)"
      using Some not_iterable2_two_long [of "coords data"] by auto
    show ?thesis
      using g pair_of_destructure2 [OF True] Some pr n
      by (cases "map_obj p")
         (simp_all add: updateMap_def map_raises_def markerChain_def popupOpens_displayName)
  qed
qed


lemma summaryProb_total: "\<exists>v. summaryProb ps k = Inr v"
proof (cases "truthy ps")
  case True
  then obtain w where "getProp ps k = Inr w" using getProp_truthy by blast
  then show ?thesis using True by (simp add: summaryProb_def)
next
  case False
  then show ?thesis by (simp add: summaryProb_def)
qed

lemma summaryProb_shown: "summaryProb ps k = Inr (shown ps k)"
  using summaryProb_total [of ps k] by (auto simp: shown_def)



lemma toStringRaises_truthy: "toStringRaises v \<Longrightarrow> truthy v"
  by (cases v) simp_all

lemma toStringRaises_displayName: "toStringRaises (displayName c s) = toStringRaises c"
  using toStringRaises_truthy [of c] by (auto simp: displayName_def)

lemma toStringRaises_shown: "toStringRaises (shown ps k) = unprintable ps k"
proof (cases "truthy ps")
  case True
  then obtain w where w: "getProp ps k = Inr w" using getProp_truthy by blast
  show ?thesis
    using True w toStringRaises_truthy [of w]
    by (auto simp: shown_def summaryProb_def unprintable_def)
next
  case False
  then show ?thesis
    by (cases ps) (auto simp: shown_def summaryProb_def unprintable_def)
qed

lemma summaryCard_eq:
  "summaryCard l data =
     (if card_raises data then Inl (TypeError ''Cannot convert object to primitive value'')
      else Inr \<lparr>info_hp = shown (probabilities data) ''very_hot'',
                info_wp = shown (probabilities data) ''very_wet'',
                info_city = displayName (city data) (city_in l), info_date = date_in l\<rparr>)"
  by (simp add: summaryCard_def summaryProb_shown Let_def card_raises_def
        toStringRaises_displayName toStringRaises_shown)

lemma those_None: "(those xs = None) = (None \<in> set xs)"
  by (induction xs) (auto split: option.splits)

lemma chart_raises: "(fst (drawLineChart (orEmpty ts)) \<noteq> None) = malformed_series ts"
proof (cases ts)
  case (TsArr es)
  show ?thesis
  proof (cases "es = []")
    case True
    then show ?thesis using TsArr by (simp add: slice_last_def)
  next
    case False
    then show ?thesis
      using TsArr those_None [of "slice_last 6 es"]
      by (cases "those (slice_last 6 es)") (auto simp: Let_def)
  qed
qed auto

lemma render_fst:
  "fst (render takes l data p) =
     (case fst (updateMap takes l data p) of
        Some e \<Rightarrow> Some e
      | None \<Rightarrow>
          (case fst (drawLineChart (orEmpty (time_series data))) of
             Some e \<Rightarrow> Some e
           | None \<Rightarrow> (case summaryCard l data of Inl e \<Rightarrow> Some e | Inr ic \<Rightarrow> None)))"
proof -
  obtain e1 p1 where u: "updateMap takes l data p = (e1, p1)"
    by (cases "updateMap takes l data p")
  obtain e2 elems where c: "drawLineChart (orEmpty (time_series data)) = (e2, elems)"
    by (cases "drawLineChart (orEmpty (time_series data))")
  show ?thesis
    by (cases e1; cases e2; cases "summaryCard l data")
       (simp_all add: render_def renderBars_map Let_def u c)
qed

lemma raises_iff:
  "(fst (render takes l data p) \<noteq> None)
     = (map_raises takes data p \<or> malformed_series (time_series data) \<or> card_raises data)"
  using updateMap_raises [of takes l data p] chart_raises [of "time_series data"]
  by (auto simp: render_fst summaryCard_eq split: option.splits)








text \<open>
  Each part of the rendering has a response that makes it raise. An object with
  \<^verbatim>\<open>length\<close> 2 passes the test \<^verbatim>\<open>data.coords && data.coords.length === 2\<close>, and the
  destructuring \<^verbatim>\<open>const [lat, lon] = data.coords\<close> raises since it is not iterable.
\<close>

lemma render_raises_on_object_coords:
  "fst (render takes l \<lparr>coords = JObj [(''length'', JNum 2)], city = c, probabilities = ps,
                         time_series = ts\<rparr> p) \<noteq> None"
  unfolding raises_iff by (simp add: map_raises_def not_iterable2_def)

text \<open>
  On a page with a map, two coordinates and a city that is a number make \<^verbatim>\<open>openPopup\<close>
  raise, whatever else the response holds.
\<close>

lemma render_raises_on_numeric_city:
  "map_obj p \<noteq> None \<Longrightarrow>
   fst (render takes l \<lparr>coords = JArr [JNum a, JNum b], city = JNum 5, probabilities = ps,
                         time_series = ts\<rparr> p) \<noteq> None"
  unfolding raises_iff by (simp add: map_raises_def pair_of_def text_or_falsy_def)

text \<open>
  A response with none of the four fields raises nothing.
\<close>

lemma render_of_empty_response:
  "fst (render takes l \<lparr>coords = JUndefined, city = JUndefined, probabilities = JUndefined,
                         time_series = TsUndefined\<rparr> p) = None"
  using raises_iff [of takes l "\<lparr>coords = JUndefined, city = JUndefined,
                         probabilities = JUndefined, time_series = TsUndefined\<rparr>" p]
  by (simp add: map_raises_def not_iterable2_def pair_of_def card_raises_def unprintable_def)

text \<open>
  A truthy value that is not a number is printed by the summary card as it is, while the
  bar chart, which tests \<^verbatim>\<open>typeof\<close>, shows 0 for it.
\<close>

lemma summary_card_keeps_non_numeric:
  "summaryProb (JObj [(''very_hot'', JStr ''abc'')]) ''very_hot'' = Inr (JStr ''abc'') \<and>
   prob (JObj [(''very_hot'', JStr ''abc'')]) (METRICS ! 0) = Inr 0"
  by (simp add: summaryProb_def prob_def METRICS_def)

end
